theory Spec2Isabelle
  imports Main
begin

section \<open>Data model\<close>

text \<open>
  Identifiers of owners and agents are JavaScript strings that may be absent:
  \<open>None\<close> stands for \<open>null\<close>/\<open>undefined\<close>, \<open>Some s\<close> for the string \<open>s\<close>.
  A value is truthy when it is present and not the empty string.
\<close>

type_synonym ident = "string option"

definition truthy :: "string option \<Rightarrow> bool" where
  "truthy v = (case v of None \<Rightarrow> False | Some s \<Rightarrow> s \<noteq> [])"

text \<open>\<open>v || d\<close> on strings.\<close>

definition or_else :: "string option \<Rightarrow> string \<Rightarrow> string" where
  "or_else v d = (case v of None \<Rightarrow> d | Some s \<Rightarrow> if s = [] then d else s)"

definition human :: ident where
  "human = Some ''human''"

definition system :: ident where
  "system = Some ''system''"

text \<open>\<open>String(v)\<close> inside a template literal.\<close>

definition show_ident :: "ident \<Rightarrow> string" where
  "show_ident v = (case v of None \<Rightarrow> ''null'' | Some s \<Rightarrow> s)"

text \<open>Decimal printing of a number inside a template literal.\<close>

fun decimal :: "nat \<Rightarrow> string" where
  "decimal n =
     (if n < 10 then [char_of (48 + n)]
      else decimal (n div 10) @ [char_of (48 + n mod 10)])"

declare decimal.simps [simp del]

text \<open>
  An object held in a layer: a Fabric path (or other Fabric shape) carrying
  \<open>data = {agent, timestamp}\<close>, or the plain entry
  \<open>{type: 'mermaid', id, content, position}\<close> stored for a diagram, which
  has no \<open>data\<close>.
\<close>

record obj_data =
  agent :: ident
  timestamp :: nat

record drawable =
  obj_type :: "string option"
  obj_id :: "string option"
  obj_content :: string
  obj_position :: "(int \<times> int) option"
  stroke :: "string option"
  strokeWidth :: "nat option"
  data :: "obj_data option"

text \<open>
  The container element appended to \<open>.canvas-container\<close> for a diagram:
  its id, the diagram source it shows, and its position.
\<close>

record container =
  element_id :: string
  mermaid_source :: string
  left_top :: "int \<times> int"

record agent_rec =
  agent_ident :: ident
  name :: string
  description :: string
  color :: string
  tools :: "string list"
  server_url :: string
  is_active :: bool

record request_data =
  req_description :: "string option"
  req_type :: "string option"
  req_timestamp :: nat

record mod_request =
  from_agent_id :: ident
  to_agent_id :: ident
  request_type :: string
  req_data :: request_data
  request_timestamp :: nat

datatype action_data =
    PathData drawable "string option" "nat option"
  | MermaidData "string option" "(int \<times> int) option"
  | ClearedData ident
  | RequestData mod_request
  | EmptyData

record canvas_action =
  agent_id :: ident
  action_type :: string
  action_data :: "action_data option"

text \<open>
  A channel message \<open>{type, ...fields}\<close>; a field that the message does not
  carry is \<open>None\<close>.
\<close>

record message =
  msg_type :: string
  msg_agent :: "agent_rec option"
  msg_agent_id :: ident
  msg_action :: "canvas_action option"
  msg_query :: "string option"
  msg_responses :: "(string \<times> string) list option"
  msg_message :: "string option"

definition blank_message :: "string \<Rightarrow> message" where
  "blank_message t =
     \<lparr>msg_type = t, msg_agent = None, msg_agent_id = None, msg_action = None,
      msg_query = None, msg_responses = None, msg_message = None\<rparr>"

subsection \<open>The managers\<close>

record canvas_manager =
  canvas :: "drawable list"
  containers :: "container list"
  brush_color :: string
  isDrawing :: bool
  currentAgent :: ident
  layers :: "ident \<rightharpoonup> drawable list"
  undoStack :: "drawable list list"
  maxUndoSteps :: nat

datatype ready_state = CONNECTING | OPEN | CLOSING | CLOSED

text \<open>
  The browser's socket: \<open>outbox\<close> is what was handed to it, and
  \<open>send_raises\<close> says whether serialising and sending on it raises.
\<close>

record socket =
  readyState :: ready_state
  send_raises :: bool
  outbox :: "message list"

text \<open>
  \<open>scheduled\<close> lists the delays (in ms) of the reconnect timers set so far;
  \<open>status_text\<close> and \<open>status_class\<close> are the \<open>connection-status\<close> element.
\<close>

record ws_manager =
  ws :: "socket option"
  reconnectAttempts :: nat
  maxReconnectAttempts :: nat
  reconnectDelay :: nat
  isConnected :: bool
  scheduled :: "nat list"
  status_text :: string
  status_class :: string

record agent_manager =
  agents :: "ident \<rightharpoonup> agent_rec"
  activeAgent :: ident

record chat_message =
  chat_type :: string
  sender :: string
  chat_content :: string
  chat_agentId :: ident

record conversation_manager =
  messages :: "chat_message list"
  maxMessages :: nat

text \<open>The page's singletons.\<close>

record app =
  canvasManager :: canvas_manager
  websocketManager :: ws_manager
  agentManager :: agent_manager
  conversationManager :: conversation_manager

datatype error = TypeError | SendError

section \<open>WebSocketManager: connection and sending\<close>

definition updateConnectionStatus :: "bool \<Rightarrow> string option \<Rightarrow> ws_manager \<Rightarrow> ws_manager" where
  "updateConnectionStatus connected msg w =
     (if connected then w\<lparr>status_text := ''Online'', status_class := ''status-online''\<rparr>
      else w\<lparr>status_text :=
                or_else msg ''Offline'',
              status_class := ''status-offline''\<rparr>)"

definition handleConnectionError :: "ws_manager \<Rightarrow> ws_manager" where
  "handleConnectionError w =
     (if reconnectAttempts w < maxReconnectAttempts w then
        (let w1 = w\<lparr>reconnectAttempts := reconnectAttempts w + 1\<rparr>
         in w1\<lparr>scheduled := scheduled w1 @ [reconnectDelay w1 * reconnectAttempts w1]\<rparr>)
      else updateConnectionStatus False (Some ''Max reconnection attempts reached'') w)"

text \<open>
  \<open>connect\<close>: the argument is the socket that \<open>new WebSocket(url)\<close> yields, or
  \<open>None\<close> when the constructor raises (caught, and treated as a connection
  error).
\<close>

definition connect :: "socket option \<Rightarrow> ws_manager \<Rightarrow> ws_manager" where
  "connect fresh w =
     (case fresh of
        Some sock \<Rightarrow> w\<lparr>ws := Some sock\<rparr>
      | None \<Rightarrow> handleConnectionError w)"

definition new_socket :: socket where
  "new_socket = \<lparr>readyState = CONNECTING, send_raises = False, outbox = []\<rparr>"

definition ws_constructor :: "socket option \<Rightarrow> ws_manager" where
  "ws_constructor fresh =
     connect fresh
       \<lparr>ws = None, reconnectAttempts = 0, maxReconnectAttempts = 5,
        reconnectDelay = 1000, isConnected = False, scheduled = [],
        status_text = [], status_class = []\<rparr>"

definition onopen :: "ws_manager \<Rightarrow> ws_manager" where
  "onopen w =
     updateConnectionStatus True None (w\<lparr>isConnected := True, reconnectAttempts := 0\<rparr>)"





text \<open>\<open>this.ws.send(JSON.stringify(message))\<close>, the body of the \<open>try\<close> block.\<close>

definition socket_send :: "socket \<Rightarrow> message \<Rightarrow> error + socket" where
  "socket_send sock m =
     (if send_raises sock then Inl SendError
      else Inr (sock\<lparr>outbox := outbox sock @ [m]\<rparr>))"

definition sendMessage :: "message \<Rightarrow> ws_manager \<Rightarrow> bool \<times> ws_manager" where
  "sendMessage m w =
     (case ws w of
        Some sock \<Rightarrow>
          if isConnected w \<and> readyState sock = OPEN then
            (case socket_send sock m of
               Inr sock' \<Rightarrow> (True, w\<lparr>ws := Some sock'\<rparr>)
             | Inl e \<Rightarrow> (False, w))
          else (False, w)
      | None \<Rightarrow> (False, w))"

text \<open>Everything handed to the current socket so far.\<close>

definition sent :: "ws_manager \<Rightarrow> message list" where
  "sent w = (case ws w of None \<Rightarrow> [] | Some sock \<Rightarrow> outbox sock)"

section \<open>CanvasManager\<close>

definition canvas_constructor :: canvas_manager where
  "canvas_constructor =
     \<lparr>canvas = [], containers = [], brush_color = ''#000000'', isDrawing = False,
      currentAgent = None, layers = [human \<mapsto> []], undoStack = [], maxUndoSteps = 50\<rparr>"

text \<open>\<open>{type: 'canvas_action', action: actionData}\<close>\<close>

definition canvas_action_message :: "canvas_action \<Rightarrow> message" where
  "canvas_action_message a = (blank_message ''canvas_action'')\<lparr>msg_action := Some a\<rparr>"

definition sendCanvasAction :: "canvas_action \<Rightarrow> app \<Rightarrow> app" where
  "sendCanvasAction a s =
     s\<lparr>websocketManager :=
         snd (sendMessage (canvas_action_message a) (websocketManager s))\<rparr>"

text \<open>
  \<open>if (!this.layers.has(k)) this.layers.set(k, []); this.layers.get(k).push(obj)\<close>,
  the idiom of every insertion.
\<close>

definition push_to_layer :: "ident \<Rightarrow> drawable \<Rightarrow> canvas_manager \<Rightarrow> canvas_manager" where
  "push_to_layer k obj c =
     c\<lparr>layers := (layers c)(k \<mapsto> (case layers c k of None \<Rightarrow> [] | Some objs \<Rightarrow> objs) @ [obj])\<rparr>"

subsection \<open>Pointer events\<close>

text \<open>First \<open>mouse:down\<close> handler and the \<open>mouse:up\<close> handler.\<close>

definition saveToUndoStack :: "canvas_manager \<Rightarrow> canvas_manager" where
  "saveToUndoStack c =
     (let st = undoStack c @ [canvas c]
      in c\<lparr>undoStack := (if length st > maxUndoSteps c then tl st else st)\<rparr>)"

definition undoLastAction :: "canvas_manager \<Rightarrow> canvas_manager" where
  "undoLastAction c =
     (if length (undoStack c) > 0
      then c\<lparr>undoStack := butlast (undoStack c), canvas := last (undoStack c)\<rparr>
      else c)"

definition mouse_down_start :: "canvas_manager \<Rightarrow> canvas_manager" where
  "mouse_down_start c = c\<lparr>isDrawing := True, currentAgent := human\<rparr>"

definition mouse_up :: "canvas_manager \<Rightarrow> canvas_manager" where
  "mouse_up c = saveToUndoStack (c\<lparr>isDrawing := False\<rparr>)"

text \<open>
  Second \<open>mouse:down\<close> handler, the ownership gate. \<open>Swallowed\<close>: it called
  \<open>stopPropagation\<close> on the event and returned \<open>false\<close>; \<open>Passed\<close>: it
  fell through. The handler assigns nothing, so the manager it returns is the
  one it was given.
\<close>

datatype gate_result = Swallowed | Passed

definition mouse_down_gate :: "drawable option \<Rightarrow> canvas_manager \<Rightarrow> gate_result \<times> canvas_manager" where
  "mouse_down_gate target c =
     (case target of
        None \<Rightarrow> (Passed, c)
      | Some t \<Rightarrow>
          (case data t of
             None \<Rightarrow> (Passed, c)
           | Some d \<Rightarrow>
               if truthy (agent d) then
                 (if agent d \<noteq> currentAgent c \<and> currentAgent c \<noteq> human
                  then (Swallowed, c) else (Passed, c))
               else (Passed, c)))"

text \<open>Both \<open>mouse:down\<close> handlers, fired in the order they were registered.\<close>

definition mouse_down :: "drawable option \<Rightarrow> canvas_manager \<Rightarrow> gate_result \<times> canvas_manager" where
  "mouse_down target c = mouse_down_gate target (mouse_down_start c)"

text \<open>
  The \<open>path:created\<close> handler. Fabric has put the path on the canvas when it
  fires the event, and the handler's \<open>path.data\<close> assignment shows on that
  object too.
\<close>

definition toObject :: "drawable \<Rightarrow> drawable" where
  "toObject p = p\<lparr>data := None\<rparr>"

definition path_created :: "nat \<Rightarrow> drawable \<Rightarrow> app \<Rightarrow> app" where
  "path_created now p s =
     (let c = canvasManager s;
          path = p\<lparr>data := Some \<lparr>agent = (if truthy (currentAgent c) then currentAgent c else human),
                                   timestamp = now\<rparr>\<rparr>;
          s1 = s\<lparr>canvasManager := push_to_layer (currentAgent c) path (c\<lparr>canvas := canvas c @ [path]\<rparr>)\<rparr>
      in if currentAgent c \<noteq> human
         then sendCanvasAction
                \<lparr>agent_id = currentAgent c, action_type = ''draw'',
                 action_data = Some (PathData (toObject path) (stroke path) (strokeWidth path))\<rparr> s1
         else s1)"

subsection \<open>Layer operations\<close>

definition setAgentDrawingMode :: "ident \<Rightarrow> string \<Rightarrow> canvas_manager \<Rightarrow> canvas_manager" where
  "setAgentDrawingMode agentId col c =
     (let c1 = c\<lparr>currentAgent := agentId, brush_color := col\<rparr>
      in case layers c1 agentId of
           None \<Rightarrow> c1\<lparr>layers := (layers c1)(agentId \<mapsto> [])\<rparr>
         | Some objs \<Rightarrow> c1)"

definition addAgentDrawing :: "nat \<Rightarrow> ident \<Rightarrow> drawable \<Rightarrow> canvas_manager \<Rightarrow> canvas_manager" where
  "addAgentDrawing now agentId pathData c =
     (let path = pathData\<lparr>data := Some \<lparr>agent = agentId, timestamp = now\<rparr>\<rparr>
      in push_to_layer agentId path (c\<lparr>canvas := canvas c @ [path]\<rparr>))"

definition clearAgentLayer :: "ident \<Rightarrow> app \<Rightarrow> app" where
  "clearAgentLayer agentId s =
     (let c = canvasManager s
      in case layers c agentId of
           None \<Rightarrow> s
         | Some layerObjects \<Rightarrow>
             sendCanvasAction
               \<lparr>agent_id = system, action_type = ''layer_cleared'',
                action_data = Some (ClearedData agentId)\<rparr>
               (s\<lparr>canvasManager :=
                    c\<lparr>canvas := fold remove1 layerObjects (canvas c),
                      layers := (layers c)(agentId \<mapsto> [])\<rparr>\<rparr>))"

definition canvas_requestModification ::
  "nat \<Rightarrow> ident \<Rightarrow> ident \<Rightarrow> request_data \<Rightarrow> app \<Rightarrow> mod_request \<times> app" where
  "canvas_requestModification now fromAgentId toAgentId requestData s =
     (let request = \<lparr>from_agent_id = fromAgentId, to_agent_id = toAgentId,
                      request_type = ''modification'', req_data = requestData,
                      request_timestamp = now\<rparr>
      in (request,
          sendCanvasAction
            \<lparr>agent_id = fromAgentId, action_type = ''modification_request'',
             action_data = Some (RequestData request)\<rparr> s))"

record layer_info =
  object_count :: nat
  object_types :: "string list"
  last_modified :: nat

definition obj_timestamp :: "drawable \<Rightarrow> nat" where
  "obj_timestamp obj = (case data obj of None \<Rightarrow> 0 | Some d \<Rightarrow> timestamp d)"

definition layer_info_of :: "drawable list \<Rightarrow> layer_info" where
  "layer_info_of objs =
     \<lparr>object_count = length objs,
      object_types = map (\<lambda>obj. or_else (obj_type obj) ''path'') objs,
      last_modified = (if length objs > 0 then foldr max (map obj_timestamp objs) 0 else 0)\<rparr>"

text \<open>\<open>getLayerInfo()\<close>: one entry per layer, read here by the layer's key.\<close>

definition getLayerInfo :: "canvas_manager \<Rightarrow> ident \<rightharpoonup> layer_info" where
  "getLayerInfo c = (\<lambda>agentId. map_option layer_info_of (layers c agentId))"

definition getLayerObjects :: "canvas_manager \<Rightarrow> ident \<Rightarrow> drawable list" where
  "getLayerObjects c agentId = (case layers c agentId of None \<Rightarrow> [] | Some objs \<Rightarrow> objs)"

definition hasLayerObjects :: "canvas_manager \<Rightarrow> ident \<Rightarrow> bool" where
  "hasLayerObjects c agentId =
     (case layers c agentId of None \<Rightarrow> False | Some objs \<Rightarrow> length objs > 0)"

definition clearCanvas :: "app \<Rightarrow> app" where
  "clearCanvas s =
     sendCanvasAction
       \<lparr>agent_id = system, action_type = ''clear'', action_data = Some EmptyData\<rparr>
       (s\<lparr>canvasManager :=
            (canvasManager s)\<lparr>canvas := [], layers := [human \<mapsto> []], undoStack := []\<rparr>\<rparr>)"

subsection \<open>Mermaid diagrams\<close>

definition addMermaidDiagram ::
  "nat \<Rightarrow> string \<Rightarrow> int \<times> int \<Rightarrow> ident \<Rightarrow> canvas_manager \<Rightarrow> string \<times> canvas_manager" where
  "addMermaidDiagram now content position agentId c =
     (let diagramId = ''mermaid-'' @ decimal now;
          c1 = c\<lparr>containers := containers c @
                  [\<lparr>element_id = diagramId, mermaid_source = content, left_top = position\<rparr>]\<rparr>
      in (diagramId,
          push_to_layer agentId
            \<lparr>obj_type = Some ''mermaid'', obj_id = Some diagramId, obj_content = content,
             obj_position = Some position, stroke = None, strokeWidth = None, data = None\<rparr>
            c1))"

text \<open>
  \<open>document.getElementById\<close> yields the first element with the id, here among
  the diagram containers; \<open>element.remove()\<close> takes that element out.
\<close>

definition removeMermaidDiagram :: "string \<Rightarrow> canvas_manager \<Rightarrow> canvas_manager" where
  "removeMermaidDiagram diagramId c =
     (case find (\<lambda>e. element_id e = diagramId) (containers c) of
        None \<Rightarrow> c
      | Some element \<Rightarrow> c\<lparr>containers := remove1 element (containers c)\<rparr>)"

section \<open>ConversationManager\<close>

definition addMessage :: "chat_message \<Rightarrow> conversation_manager \<Rightarrow> conversation_manager" where
  "addMessage m cv =
     (let ms = messages cv @ [m]
      in cv\<lparr>messages := (if length ms > maxMessages cv then tl ms else ms)\<rparr>)"

definition addSystemMessage :: "string \<Rightarrow> conversation_manager \<Rightarrow> conversation_manager" where
  "addSystemMessage content cv =
     addMessage \<lparr>chat_type = ''system'', sender = ''System'', chat_content = content,
                 chat_agentId = None\<rparr> cv"

definition conversation_constructor :: conversation_manager where
  "conversation_constructor =
     addSystemMessage
       ''Welcome to the Companion Agent Canvas Interface! You can now interact with agents and collaborate on the canvas.''
       \<lparr>messages = [], maxMessages = 1000\<rparr>"

definition getAgentById :: "agent_manager \<Rightarrow> ident \<Rightarrow> agent_rec option" where
  "getAgentById am agentId = agents am agentId"

text \<open>\<open>agent ? agent.name : `Agent ${agentId}`\<close>\<close>

definition agent_name_or_id :: "agent_manager \<Rightarrow> ident \<Rightarrow> string" where
  "agent_name_or_id am agentId =
     (case getAgentById am agentId of
        Some a \<Rightarrow> name a
      | None \<Rightarrow> ''Agent '' @ show_ident agentId)"

definition addAgentMessage :: "ident \<Rightarrow> string \<Rightarrow> app \<Rightarrow> app" where
  "addAgentMessage agentId content s =
     s\<lparr>conversationManager :=
         addMessage \<lparr>chat_type = ''agent'', sender = agent_name_or_id (agentManager s) agentId,
                     chat_content = content, chat_agentId = agentId\<rparr>
           (conversationManager s)\<rparr>"

definition handleAgentResponses :: "string option \<Rightarrow> (string \<times> string) list \<Rightarrow> app \<Rightarrow> app" where
  "handleAgentResponses query responses s =
     fold (\<lambda>(agentId, response). addAgentMessage (Some agentId) response) responses
       (s\<lparr>conversationManager :=
            addSystemMessage
              (''Received responses from '' @ decimal (length responses) @ '' agents for query: ''
                 @ [CHR 0x22] @ show_ident query @ [CHR 0x22])
              (conversationManager s)\<rparr>)"

definition conversation_handleCanvasAction :: "canvas_action \<Rightarrow> app \<Rightarrow> app" where
  "conversation_handleCanvasAction a s =
     (let actionDescription =
            (if action_type a = ''draw'' then ''drew on the canvas''
             else if action_type a = ''mermaid'' then ''added a mermaid diagram''
             else if action_type a = ''clear'' then ''cleared the canvas''
             else ''performed action: '' @ action_type a)
      in s\<lparr>conversationManager :=
             addSystemMessage
               (agent_name_or_id (agentManager s) (agent_id a) @ '' '' @ actionDescription)
               (conversationManager s)\<rparr>)"

section \<open>AgentManager\<close>

definition agent_constructor :: agent_manager where
  "agent_constructor = \<lparr>agents = Map.empty, activeAgent = None\<rparr>"

definition addAgentToUI :: "agent_rec \<Rightarrow> agent_manager \<Rightarrow> agent_manager" where
  "addAgentToUI a am = am\<lparr>agents := (agents am)(agent_ident a \<mapsto> a)\<rparr>"

definition updateAgentInUI :: "agent_rec \<Rightarrow> agent_manager \<Rightarrow> agent_manager" where
  "updateAgentInUI a am = am\<lparr>agents := (agents am)(agent_ident a \<mapsto> a)\<rparr>"

text \<open>\<open>removeAgent\<close>: the first argument is the answer to the \<open>confirm\<close> dialog.\<close>

definition removeAgent :: "bool \<Rightarrow> ident \<Rightarrow> app \<Rightarrow> app" where
  "removeAgent confirmed agentId s =
     (if confirmed then
        (let s1 = s\<lparr>websocketManager :=
                      snd (sendMessage ((blank_message ''remove_agent'')\<lparr>msg_agent_id := agentId\<rparr>)
                             (websocketManager s))\<rparr>;
             s2 = s1\<lparr>agentManager :=
                       (agentManager s1)\<lparr>agents := (agents (agentManager s1))(agentId := None)\<rparr>\<rparr>
         in clearAgentLayer agentId s2)
      else s)"

definition agent_clearAgentLayer :: "ident \<Rightarrow> app \<Rightarrow> app" where
  "agent_clearAgentLayer agentId s =
     (let s1 = clearAgentLayer agentId s
      in s1\<lparr>websocketManager :=
              snd (sendMessage ((blank_message ''clear_agent_layer'')\<lparr>msg_agent_id := agentId\<rparr>)
                     (websocketManager s1))\<rparr>)"

definition agent_setAgentDrawingMode :: "ident \<Rightarrow> app \<Rightarrow> app" where
  "agent_setAgentDrawingMode agentId s =
     (case agents (agentManager s) agentId of
        None \<Rightarrow> s
      | Some a \<Rightarrow>
          s\<lparr>canvasManager := setAgentDrawingMode agentId (color a) (canvasManager s),
            agentManager := (agentManager s)\<lparr>activeAgent := agentId\<rparr>\<rparr>)"

text \<open>\<open>requestModification\<close> of the agent manager; \<open>None\<close> is the \<open>null\<close> it
  returns when an agent is not found.\<close>

definition requestModification ::
  "nat \<Rightarrow> ident \<Rightarrow> ident \<Rightarrow> request_data \<Rightarrow> app \<Rightarrow> mod_request option \<times> app" where
  "requestModification now fromAgentId toAgentId requestData s =
     (case agents (agentManager s) fromAgentId of
        None \<Rightarrow> (None, s)
      | Some fromAgent \<Rightarrow>
          (case agents (agentManager s) toAgentId of
             None \<Rightarrow> (None, s)
           | Some toAgent \<Rightarrow>
               (let (request, s1) =
                      canvas_requestModification now fromAgentId toAgentId requestData s
                in (Some request,
                    s1\<lparr>conversationManager :=
                         addSystemMessage
                           (name fromAgent @ '' has requested a modification from '' @ name toAgent
                              @ '': '' @ or_else (req_description requestData) ''No description provided'')
                           (conversationManager s1)\<rparr>))))"

definition handleModificationRequest :: "mod_request \<Rightarrow> app \<Rightarrow> app" where
  "handleModificationRequest request s =
     (case agents (agentManager s) (from_agent_id request) of
        None \<Rightarrow> s
      | Some fromAgent \<Rightarrow>
          (case agents (agentManager s) (to_agent_id request) of
             None \<Rightarrow> s
           | Some toAgent \<Rightarrow>
               s\<lparr>conversationManager :=
                   addSystemMessage
                     (name fromAgent @ '' is requesting '' @ name toAgent @ '' to modify their layer: ''
                        @ or_else (req_description (req_data request)) ''No description provided'')
                     (conversationManager s)\<rparr>))"

text \<open>The page as it stands once the four singletons are constructed.\<close>

definition initial_app :: "socket option \<Rightarrow> app" where
  "initial_app fresh =
     \<lparr>canvasManager = canvas_constructor, websocketManager = ws_constructor fresh,
      agentManager = agent_constructor, conversationManager = conversation_constructor\<rparr>"

section \<open>WebSocketManager: inbound messages\<close>

definition handleCanvasAction :: "nat \<Rightarrow> canvas_action \<Rightarrow> app \<Rightarrow> app" where
  "handleCanvasAction now a s =
     (let actionType = action_type a;
          agentId = agent_id a;
          s1 =
            (if actionType = ''draw'' then
               (case action_data a of
                  Some (PathData p c w) \<Rightarrow>
                    s\<lparr>canvasManager := addAgentDrawing now agentId p (canvasManager s)\<rparr>
                | _ \<Rightarrow> s)
             else if actionType = ''mermaid'' then
               (case action_data a of
                  Some (MermaidData (Some content) pos) \<Rightarrow>
                    if content \<noteq> [] then
                      s\<lparr>canvasManager :=
                          snd (addMermaidDiagram now content
                                 (case pos of None \<Rightarrow> (50, 50) | Some xy \<Rightarrow> xy)
                                 agentId (canvasManager s))\<rparr>
                    else s
                | _ \<Rightarrow> s)
             else if actionType = ''clear'' then clearCanvas s
             else if actionType = ''layer_cleared'' then
               (case action_data a of
                  Some (ClearedData cleared) \<Rightarrow>
                    if truthy cleared then
                      s\<lparr>conversationManager :=
                          addSystemMessage
                            (agent_name_or_id (agentManager s) cleared
                               @ [CHR 0x27] @ ''s layer has been cleared.'')
                            (conversationManager s)\<rparr>
                    else s
                | _ \<Rightarrow> s)
             else s)
      in conversation_handleCanvasAction a s1)"

text \<open>
  \<open>handleMessage\<close>: \<open>Inl TypeError\<close> where the handler reads a property of a
  field the message does not carry; that happens before it assigns anything.
\<close>

definition handleMessage :: "nat \<Rightarrow> message \<Rightarrow> app \<Rightarrow> error + app" where
  "handleMessage now m s =
     (let messageType = msg_type m in
      if messageType = ''agent_added'' then
        (case msg_agent m of
           None \<Rightarrow> Inl TypeError
         | Some a \<Rightarrow>
             Inr (s\<lparr>agentManager := addAgentToUI a (agentManager s),
                    conversationManager :=
                      addSystemMessage
                        (''Agent '' @ [CHR 0x22] @ name a @ [CHR 0x22] @ '' has been added.'')
                        (conversationManager s)\<rparr>))
      else if messageType = ''agent_updated'' then
        (case msg_agent m of
           None \<Rightarrow> Inl TypeError
         | Some a \<Rightarrow>
             Inr (s\<lparr>agentManager := updateAgentInUI a (agentManager s),
                    conversationManager :=
                      addSystemMessage
                        (''Agent '' @ [CHR 0x22] @ name a @ [CHR 0x22] @ '' has been updated.'')
                        (conversationManager s)\<rparr>))
      else if messageType = ''agent_removed'' then
        Inr (s\<lparr>agentManager :=
                 (agentManager s)\<lparr>agents := (agents (agentManager s))(msg_agent_id m := None)\<rparr>,
               conversationManager :=
                 addSystemMessage ''An agent has been removed.'' (conversationManager s)\<rparr>)
      else if messageType = ''canvas_action'' then
        (case msg_action m of
           None \<Rightarrow> Inl TypeError
         | Some a \<Rightarrow> Inr (handleCanvasAction now a s))
      else if messageType = ''modification_request'' then
        (case msg_action m of
           None \<Rightarrow> Inl TypeError
         | Some a \<Rightarrow>
             (case action_data a of
                None \<Rightarrow> Inl TypeError
              | Some (RequestData request) \<Rightarrow> Inr (handleModificationRequest request s)
              | Some other \<Rightarrow>
                  if agents (agentManager s) None = None then Inr s else Inl TypeError))
      else if messageType = ''agent_responses'' then
        (case msg_responses m of
           None \<Rightarrow> Inl TypeError
         | Some responses \<Rightarrow> Inr (handleAgentResponses (msg_query m) responses s))
      else if messageType = ''layer_cleared'' then
        (let s1 = clearAgentLayer (msg_agent_id m) s
         in Inr (s1\<lparr>conversationManager :=
                     addSystemMessage
                       (agent_name_or_id (agentManager s1) (msg_agent_id m)
                          @ [CHR 0x27] @ ''s layer has been cleared.'')
                       (conversationManager s1)\<rparr>))
      else if messageType = ''success'' then Inr s
      else if messageType = ''error'' then
        Inr (s\<lparr>conversationManager :=
                 addSystemMessage (''Error: '' @ show_ident (msg_message m))
                   (conversationManager s)\<rparr>)
      else Inr s)"

text \<open>
  \<open>onmessage\<close>: the argument is the parsed payload, \<open>None\<close> when
  \<open>JSON.parse\<close> raises; the \<open>catch\<close> logs and drops.
\<close>

definition onmessage :: "nat \<Rightarrow> message option \<Rightarrow> app \<Rightarrow> app" where
  "onmessage now parsed s =
     (case parsed of
        None \<Rightarrow> s
      | Some m \<Rightarrow> (case handleMessage now m s of Inl e \<Rightarrow> s | Inr s' \<Rightarrow> s'))"

section \<open>Connection events\<close>







section \<open>Session events\<close>

text \<open>
  What can happen to the page once it is loaded: pointer events on the canvas,
  calls of the canvas and agent managers' operations (from the page's buttons
  or from an agent), and messages arriving on the socket.
\<close>

datatype session_event =
    MouseDown "drawable option"
  | MouseUp
  | PathCreated nat drawable
  | AddAgentDrawing nat ident drawable
  | AddMermaidDiagram nat string "int \<times> int" ident
  | RemoveMermaidDiagram string
  | SetAgentDrawingMode ident
  | ClearAgentLayer ident
  | ClearCanvas
  | UndoLastAction
  | RemoveAgent bool ident
  | RequestModification nat ident ident request_data
  | Inbound nat "message option"

fun apply_event :: "session_event \<Rightarrow> app \<Rightarrow> app" where
  "apply_event (MouseDown target) s =
     s\<lparr>canvasManager := snd (mouse_down target (canvasManager s))\<rparr>"
| "apply_event MouseUp s = s\<lparr>canvasManager := mouse_up (canvasManager s)\<rparr>"
| "apply_event (PathCreated now p) s = path_created now p s"
| "apply_event (AddAgentDrawing now agentId p) s =
     s\<lparr>canvasManager := addAgentDrawing now agentId p (canvasManager s)\<rparr>"
| "apply_event (AddMermaidDiagram now content position agentId) s =
     s\<lparr>canvasManager := snd (addMermaidDiagram now content position agentId (canvasManager s))\<rparr>"
| "apply_event (RemoveMermaidDiagram diagramId) s =
     s\<lparr>canvasManager := removeMermaidDiagram diagramId (canvasManager s)\<rparr>"
| "apply_event (SetAgentDrawingMode agentId) s = agent_setAgentDrawingMode agentId s"
| "apply_event (ClearAgentLayer agentId) s = agent_clearAgentLayer agentId s"
| "apply_event ClearCanvas s = clearCanvas s"
| "apply_event UndoLastAction s = s\<lparr>canvasManager := undoLastAction (canvasManager s)\<rparr>"
| "apply_event (RemoveAgent confirmed agentId) s = removeAgent confirmed agentId s"
| "apply_event (RequestModification now fromId toId payload) s =
     snd (requestModification now fromId toId payload s)"
| "apply_event (Inbound now parsed) s = onmessage now parsed s"

text \<open>\<open>this.layers.has(k)\<close>\<close>

definition layers_has :: "canvas_manager \<Rightarrow> ident \<Rightarrow> bool" where
  "layers_has c k = (case layers c k of None \<Rightarrow> False | Some objs \<Rightarrow> True)"

section \<open>What reaches the channel\<close>

text \<open>
  A send goes out when the manager is connected and its socket is present,
  \<open>OPEN\<close> and does not raise.
\<close>

definition channel_open :: "ws_manager \<Rightarrow> bool" where
  "channel_open w =
     (isConnected w \<and>
      (case ws w of None \<Rightarrow> False
       | Some sock \<Rightarrow> readyState sock = OPEN \<and> \<not> send_raises sock))"

text \<open>The canvas manager's broadcasts of a cleared layer and of a request.\<close>

definition layer_cleared_broadcast :: "ident \<Rightarrow> message" where
  "layer_cleared_broadcast agentId =
     canvas_action_message
       \<lparr>agent_id = system, action_type = ''layer_cleared'',
        action_data = Some (ClearedData agentId)\<rparr>"

definition modification_request_message :: "mod_request \<Rightarrow> message" where
  "modification_request_message request =
     canvas_action_message
       \<lparr>agent_id = from_agent_id request, action_type = ''modification_request'',
        action_data = Some (RequestData request)\<rparr>"

section \<open>Example states\<close>

text \<open>
  The page once its socket has opened; a path drawn by an owner; the canvas
  manager once agent "A" has entered drawing mode; the page with two agents
  "A" and "B" registered; a request payload; and the canvas manager after "A"
  has inserted one diagram at time 7.
\<close>

definition online_app :: app where
  "online_app =
     (let s = initial_app (Some (new_socket\<lparr>readyState := OPEN\<rparr>))
      in s\<lparr>websocketManager := onopen (websocketManager s)\<rparr>)"

definition example_agent :: "string \<Rightarrow> agent_rec" where
  "example_agent i =
     \<lparr>agent_ident = Some i, name = ''Agent '' @ i, description = [], color = ''#3b82f6'',
      tools = [], server_url = [], is_active = True\<rparr>"

definition example_path :: "ident \<Rightarrow> drawable" where
  "example_path owner =
     \<lparr>obj_type = Some ''path'', obj_id = None, obj_content = ''M 0 0 L 10 10'',
      obj_position = None, stroke = Some ''#3b82f6'', strokeWidth = Some 5,
      data = Some \<lparr>agent = owner, timestamp = 1\<rparr>\<rparr>"

definition agent_A_drawing :: canvas_manager where
  "agent_A_drawing = setAgentDrawingMode (Some ''A'') ''#3b82f6'' canvas_constructor"

definition two_agents_app :: app where
  "two_agents_app =
     online_app\<lparr>agentManager :=
        addAgentToUI (example_agent ''B'')
          (addAgentToUI (example_agent ''A'') (agentManager online_app))\<rparr>"

definition example_request :: request_data where
  "example_request =
     \<lparr>req_description = Some ''remove the circle'', req_type = Some ''remove'',
      req_timestamp = 2\<rparr>"

definition example_diagram :: "string \<times> canvas_manager" where
  "example_diagram =
     addMermaidDiagram 7 ''graph TD; A-->B'' (50, 50) (Some ''A'') canvas_constructor"

section \<open>Frame lemmas\<close>

lemma sendCanvasAction_frame [simp]:
  "canvasManager (sendCanvasAction a s) = canvasManager s"
  "agentManager (sendCanvasAction a s) = agentManager s"
  "conversationManager (sendCanvasAction a s) = conversationManager s"
  by (simp_all add: sendCanvasAction_def)

lemma canvas_requestModification_frame [simp]:
  "canvasManager (snd (canvas_requestModification now fromId toId payload s)) = canvasManager s"
  by (simp add: canvas_requestModification_def Let_def)

section \<open>Sending on the channel\<close>

text \<open>
  Claim C10. \<open>sendMessage\<close> always returns: its only raising step, the send
  inside the \<open>try\<close> block, is caught. It returns \<open>true\<close> exactly when the
  manager is connected, a socket is present and \<open>OPEN\<close>, and the send did not
  raise; then the message has been handed to the socket. In every other case
  it returns \<open>false\<close> and the manager is as it was.
\<close>

theorem sendMessage_returns:
  "fst (sendMessage m w) =
     (isConnected w \<and>
      (case ws w of None \<Rightarrow> False
       | Some sock \<Rightarrow> readyState sock = OPEN \<and> \<not> send_raises sock))
   \<and> snd (sendMessage m w) =
     (if fst (sendMessage m w)
      then w\<lparr>ws := map_option (\<lambda>sock. sock\<lparr>outbox := outbox sock @ [m]\<rparr>) (ws w)\<rparr>
      else w)"
  by (auto simp: sendMessage_def socket_send_def split: option.splits)

section \<open>Modification requests\<close>

text \<open>
  Claim C4. \<open>requestModification\<close>, of the agent manager and of the canvas
  manager alike, leaves the Layer Store as it was, every layer with the same
  sequence of objects, whether or not the agents are found.
\<close>

theorem requestModification_keeps_layers:
  "layers (canvasManager (snd (requestModification now fromId toId payload s)))
     = layers (canvasManager s)
   \<and> layers (canvasManager (snd (canvas_requestModification now fromId toId payload s)))
     = layers (canvasManager s)"
  by (simp add: requestModification_def canvas_requestModification_def Let_def
           split: option.splits)

section \<open>Reconnection\<close>

lemma handleConnectionError_consts [simp]:
  "maxReconnectAttempts (handleConnectionError w) = maxReconnectAttempts w"
  "reconnectDelay (handleConnectionError w) = reconnectDelay w"
  "isConnected (handleConnectionError w) = isConnected w"
  by (simp_all add: handleConnectionError_def updateConnectionStatus_def Let_def)












section \<open>The human layer\<close>

lemma layers_has_iff: "layers_has c k = (layers c k \<noteq> None)"
  by (simp add: layers_has_def split: option.splits)

lemma push_to_layer_keeps: "layers_has c k \<Longrightarrow> layers_has (push_to_layer k' obj c) k"
  by (simp add: push_to_layer_def layers_has_def)

lemma clearAgentLayer_keeps:
  "layers_has (canvasManager s) k \<Longrightarrow> layers_has (canvasManager (clearAgentLayer k' s)) k"
  by (auto simp: clearAgentLayer_def Let_def layers_has_def split: option.splits)

lemma clearCanvas_human: "layers_has (canvasManager (clearCanvas s)) human"
  by (simp add: clearCanvas_def layers_has_def)

lemma path_created_keeps:
  "layers_has (canvasManager s) k \<Longrightarrow> layers_has (canvasManager (path_created now p s)) k"
  by (auto simp: path_created_def Let_def push_to_layer_def layers_has_def split: option.splits)

lemma addAgentDrawing_keeps:
  "layers_has c k \<Longrightarrow> layers_has (addAgentDrawing now a p c) k"
  by (simp add: addAgentDrawing_def Let_def push_to_layer_def layers_has_def)

lemma addMermaidDiagram_keeps:
  "layers_has c k \<Longrightarrow> layers_has (snd (addMermaidDiagram now content pos a c)) k"
  by (simp add: addMermaidDiagram_def Let_def push_to_layer_def layers_has_def)

lemma conversation_handleCanvasAction_frame [simp]:
  "canvasManager (conversation_handleCanvasAction a s) = canvasManager s"
  by (simp add: conversation_handleCanvasAction_def Let_def)

lemma handleModificationRequest_frame [simp]:
  "canvasManager (handleModificationRequest r s) = canvasManager s"
  by (simp add: handleModificationRequest_def split: option.splits)

lemma addAgentMessage_frame [simp]:
  "canvasManager (addAgentMessage a c s) = canvasManager s"
  by (simp add: addAgentMessage_def)

lemma handleAgentResponses_frame [simp]:
  "canvasManager (handleAgentResponses q rs s) = canvasManager s"
proof -
  have "canvasManager (fold (\<lambda>(agentId, response). addAgentMessage (Some agentId) response) rs t)
          = canvasManager t" for t
    by (induction rs arbitrary: t) (auto)
  then show ?thesis by (simp add: handleAgentResponses_def)
qed

lemma requestModification_frame [simp]:
  "canvasManager (snd (requestModification now fromId toId payload s)) = canvasManager s"
  by (simp add: requestModification_def canvas_requestModification_def Let_def
        split: option.splits)

lemma handleCanvasAction_human:
  "layers_has (canvasManager s) human \<Longrightarrow>
     layers_has (canvasManager (handleCanvasAction now a s)) human"
  by (simp add: handleCanvasAction_def Let_def clearCanvas_human
        addAgentDrawing_keeps addMermaidDiagram_keeps
        split: option.splits action_data.splits)

lemma handleMessage_human:
  "layers_has (canvasManager s) human \<Longrightarrow> handleMessage now m s = Inr s' \<Longrightarrow>
     layers_has (canvasManager s') human"
  by (auto simp: handleMessage_def Let_def handleCanvasAction_human clearAgentLayer_keeps
        split: if_splits option.splits action_data.splits)

lemma onmessage_human:
  "layers_has (canvasManager s) human \<Longrightarrow> layers_has (canvasManager (onmessage now parsed s)) human"
  using handleMessage_human[of s now]
  by (auto simp: onmessage_def split: option.splits sum.splits)

lemma pointer_layers [simp]:
  "layers (snd (mouse_down target c)) = layers c"
  "layers (snd (mouse_down_gate target c)) = layers c"
  "layers (mouse_up c) = layers c"
  "layers (undoLastAction c) = layers c"
  "layers (removeMermaidDiagram d c) = layers c"
  by (simp_all add: mouse_down_def mouse_down_gate_def mouse_down_start_def mouse_up_def
        saveToUndoStack_def undoLastAction_def removeMermaidDiagram_def Let_def
        split: option.splits)

lemma apply_event_human:
  assumes "layers_has (canvasManager s) human"
  shows "layers_has (canvasManager (apply_event e s)) human"
proof (cases e)
  case (MouseDown target)
  with assms show ?thesis by (simp add: layers_has_def)
next
  case MouseUp
  with assms show ?thesis by (simp add: layers_has_def)
next
  case (PathCreated now p)
  with assms show ?thesis by (simp add: path_created_keeps)
next
  case (AddAgentDrawing now agentId p)
  with assms show ?thesis by (simp add: addAgentDrawing_keeps)
next
  case (AddMermaidDiagram now content position agentId)
  with assms show ?thesis by (simp add: addMermaidDiagram_keeps)
next
  case (RemoveMermaidDiagram diagramId)
  with assms show ?thesis by (simp add: layers_has_def)
next
  case (SetAgentDrawingMode agentId)
  with assms show ?thesis
    by (auto simp: agent_setAgentDrawingMode_def setAgentDrawingMode_def layers_has_def Let_def
          split: option.splits)
next
  case (ClearAgentLayer agentId)
  with assms show ?thesis
    by (simp add: agent_clearAgentLayer_def Let_def clearAgentLayer_keeps)
next
  case ClearCanvas
  then show ?thesis by (simp add: clearCanvas_human)
next
  case UndoLastAction
  with assms show ?thesis by (simp add: layers_has_def)
next
  case (RemoveAgent confirmed agentId)
  with assms show ?thesis
    by (simp add: removeAgent_def Let_def clearAgentLayer_keeps)
next
  case (RequestModification now fromId toId payload)
  with assms show ?thesis by simp
next
  case (Inbound now parsed)
  with assms show ?thesis by (simp add: onmessage_human)
qed

text \<open>
  Claim C9. The Layer Store has an entry keyed "human" once the page is
  constructed, and after every sequence of session events (insertions, layer
  clears, full-canvas clears, agent removals, pointer events, inbound
  messages): the human layer may be emptied but its entry is never removed.
\<close>

theorem human_layer_kept:
  "layers (canvasManager (fold apply_event evs (initial_app fresh))) human \<noteq> None"
proof -
  have "layers_has (canvasManager (fold apply_event evs s)) human"
    if "layers_has (canvasManager s) human" for s
    using that by (induction evs arbitrary: s) (simp_all add: apply_event_human)
  moreover have "layers_has (canvasManager (initial_app fresh)) human"
    by (simp add: layers_has_def initial_app_def canvas_constructor_def)
  ultimately show ?thesis by (simp add: layers_has_iff)
qed

section \<open>Sends and layer clears\<close>

lemma sent_sendMessage:
  "sent (snd (sendMessage m w)) = sent w @ (if channel_open w then [m] else [])"
  by (auto simp: sendMessage_def socket_send_def sent_def channel_open_def split: option.splits)

lemma sent_sendCanvasAction:
  "sent (websocketManager (sendCanvasAction a s))
     = sent (websocketManager s) @ (if channel_open (websocketManager s) then [canvas_action_message a] else [])"
  by (simp add: sendCanvasAction_def sent_sendMessage canvas_action_message_def)

lemma clearAgentLayer_absent:
  "\<not> layers_has (canvasManager s) k \<Longrightarrow> clearAgentLayer k s = s"
  by (simp add: clearAgentLayer_def layers_has_def Let_def split: option.splits)

lemma clearAgentLayer_layers:
  "layers (canvasManager (clearAgentLayer k s))
     = (if layers_has (canvasManager s) k then (layers (canvasManager s))(k \<mapsto> [])
        else layers (canvasManager s))"
  by (simp add: clearAgentLayer_def layers_has_def Let_def split: option.splits)

lemma clearAgentLayer_sent:
  "sent (websocketManager (clearAgentLayer k s))
     = sent (websocketManager s) @
       (if layers_has (canvasManager s) k \<and> channel_open (websocketManager s)
        then [layer_cleared_broadcast k] else [])"
  by (simp add: clearAgentLayer_def layers_has_def Let_def sent_sendCanvasAction
        layer_cleared_broadcast_def split: option.splits)

section \<open>Clearing a layer\<close>

text \<open>
  Claim C6, as stated, fails for an owner that has no layer: \<open>clearAgentLayer\<close>
  does nothing then, it does not create the entry, and \<open>getLayerInfo()\<close> has
  no entry for that owner, so there is no count that equals 0.
\<close>

theorem clearAgentLayer_count_counterexample:
  "map_option object_count
     (getLayerInfo (canvasManager (clearAgentLayer (Some ''ghost'') online_app)) (Some ''ghost''))
   \<noteq> Some 0"
  by (simp add: getLayerInfo_def clearAgentLayer_layers layers_has_def online_app_def
        initial_app_def canvas_constructor_def human_def)

text \<open>
  Claim C6, amended. After \<open>clearAgentLayer(id)\<close>, \<open>getLayerInfo()\<close> gives
  \<open>object_count = 0\<close> for every \<open>id\<close> that had a layer entry, and has no
  entry for an \<open>id\<close> that had none. Clearing twice leaves the Layer Store as
  clearing once, and clearing a layer that holds no object (empty or absent)
  leaves the Layer Store as it was.
\<close>

theorem clearAgentLayer_count:
  "map_option object_count (getLayerInfo (canvasManager (clearAgentLayer k s)) k)
     = (if layers_has (canvasManager s) k then Some 0 else None)
   \<and> layers (canvasManager (clearAgentLayer k (clearAgentLayer k s)))
     = layers (canvasManager (clearAgentLayer k s))
   \<and> layers (canvasManager (clearAgentLayer k s))
     = (if getLayerObjects (canvasManager s) k = [] then layers (canvasManager s)
        else (layers (canvasManager s))(k \<mapsto> []))"
proof -
  have a: "map_option object_count (getLayerInfo (canvasManager (clearAgentLayer k s)) k)
     = (if layers_has (canvasManager s) k then Some 0 else None)"
    by (simp add: getLayerInfo_def clearAgentLayer_layers layer_info_of_def layers_has_def
          split: option.splits)
  have b: "layers (canvasManager (clearAgentLayer k (clearAgentLayer k s)))
     = layers (canvasManager (clearAgentLayer k s))"
    by (simp add: clearAgentLayer_layers layers_has_def)
  have c: "layers (canvasManager (clearAgentLayer k s))
     = (if getLayerObjects (canvasManager s) k = [] then layers (canvasManager s)
        else (layers (canvasManager s))(k \<mapsto> []))"
    by (auto simp: clearAgentLayer_layers layers_has_def getLayerObjects_def
          split: option.splits)
  from a b c show ?thesis by blast
qed

section \<open>The \<open>layer_cleared\<close> message\<close>

text \<open>
  Claim C2, as stated, fails when the agent named by the message has no layer
  in the local store: nothing is cleared and no broadcast goes out, although
  the channel is open.
\<close>

theorem layer_cleared_counterexample:
  "sent (websocketManager
      (onmessage 0 (Some ((blank_message ''layer_cleared'')\<lparr>msg_agent_id := Some ''A''\<rparr>))
         online_app)) = []"
proof -
  have absent: "\<not> layers_has (canvasManager online_app) (Some ''A'')"
    by (simp add: layers_has_def online_app_def initial_app_def canvas_constructor_def human_def)
  have quiet: "sent (websocketManager online_app) = []"
    by (simp add: sent_def online_app_def initial_app_def ws_constructor_def connect_def
          onopen_def updateConnectionStatus_def new_socket_def)
  show ?thesis
    by (simp add: onmessage_def handleMessage_def blank_message_def Let_def
          clearAgentLayer_absent[OF absent] quiet)
qed

text \<open>
  Claim C2, amended. For every inbound \<open>layer_cleared\<close> message for agent
  \<open>A\<close> the handler returns normally. If \<open>A\<close> has a layer entry the layer is
  emptied, otherwise the Layer Store is unchanged. Exactly one
  \<open>layer_cleared\<close> canvas action is handed to the socket when \<open>A\<close> has a
  layer entry and the channel is open, and none otherwise.
\<close>

theorem layer_cleared_message:
  assumes "msg_type m = ''layer_cleared''"
  shows "case handleMessage now m s of
           Inl e \<Rightarrow> False
         | Inr s' \<Rightarrow>
             layers (canvasManager s')
               = (if layers_has (canvasManager s) (msg_agent_id m)
                  then (layers (canvasManager s))(msg_agent_id m \<mapsto> [])
                  else layers (canvasManager s))
             \<and> sent (websocketManager s')
               = sent (websocketManager s) @
                 (if layers_has (canvasManager s) (msg_agent_id m)
                     \<and> channel_open (websocketManager s)
                  then [layer_cleared_broadcast (msg_agent_id m)] else [])"
  using assms
  by (simp add: handleMessage_def Let_def clearAgentLayer_layers clearAgentLayer_sent)

text \<open>
  A \<open>layer_cleared\<close> message for the human layer on the open page: the layer
  is empty afterwards and one broadcast went out.
\<close>

theorem layer_cleared_message_witness:
  "msg_type ((blank_message ''layer_cleared'')\<lparr>msg_agent_id := human\<rparr>) = ''layer_cleared''
   \<and> (case handleMessage 0 ((blank_message ''layer_cleared'')\<lparr>msg_agent_id := human\<rparr>) online_app of
         Inl e \<Rightarrow> False
       | Inr s' \<Rightarrow>
           layers (canvasManager s') human = Some []
           \<and> sent (websocketManager s') = [layer_cleared_broadcast human])"
proof -
  have present: "layers_has (canvasManager online_app) human"
    by (simp add: layers_has_def online_app_def initial_app_def canvas_constructor_def)
  have quiet: "sent (websocketManager online_app) = []"
    by (simp add: sent_def online_app_def initial_app_def ws_constructor_def connect_def
          onopen_def updateConnectionStatus_def new_socket_def)
  have opened: "channel_open (websocketManager online_app)"
    by (simp add: channel_open_def online_app_def initial_app_def ws_constructor_def connect_def
          onopen_def updateConnectionStatus_def new_socket_def)
  have t: "msg_type ((blank_message ''layer_cleared'')\<lparr>msg_agent_id := human\<rparr>) = ''layer_cleared''"
    by (simp add: blank_message_def)
  from layer_cleared_message[OF t, where now = 0 and s = online_app] present quiet opened t
  show ?thesis
    by (simp add: blank_message_def split: sum.splits)
qed

section \<open>The ownership gate\<close>

text \<open>
  On the page the two \<open>mouse:down\<close> handlers run in the order of their
  registration, and the first has made "human" the active owner by the time
  the gate reads it: no pointer-down is ever swallowed.
\<close>

lemma mouse_down_passes: "fst (mouse_down target c) = Passed"
  by (simp add: mouse_down_def mouse_down_gate_def mouse_down_start_def split: option.splits)

text \<open>
  Claim C1 at the input where the code departs from it: agent "A" is in
  drawing mode and the pointer goes down on a path of agent "B". The gate,
  given the state as it was, would swallow the event; on the page the first
  handler has reset the active owner to "human" before the gate reads it, and
  the event passes.
\<close>

theorem foreign_object_not_rejected:
  "currentAgent agent_A_drawing = Some ''A''
   \<and> fst (mouse_down_gate (Some (example_path (Some ''B''))) agent_A_drawing) = Swallowed
   \<and> mouse_down (Some (example_path (Some ''B''))) agent_A_drawing
       = (Passed, agent_A_drawing\<lparr>isDrawing := True, currentAgent := human\<rparr>)"
  by (simp add: agent_A_drawing_def setAgentDrawingMode_def canvas_constructor_def
        mouse_down_def mouse_down_gate_def mouse_down_start_def example_path_def
        truthy_def human_def Let_def)

section \<open>Requesting a modification\<close>

lemma two_agents_lookup:
  "agents (agentManager two_agents_app) (Some ''A'') = Some (example_agent ''A'')"
  "agents (agentManager two_agents_app) (Some ''B'') = Some (example_agent ''B'')"
  "agents (agentManager two_agents_app) (Some ''C'') = None"
  by (simp_all add: two_agents_app_def addAgentToUI_def example_agent_def online_app_def
        initial_app_def agent_constructor_def Let_def)

text \<open>
  Claim C3, as stated, fails for a request of a registered agent to itself:
  there is no check that the two ids differ, and the request is built,
  sent and returned.
\<close>

theorem requestModification_self_counterexample:
  "fst (requestModification 3 (Some ''A'') (Some ''A'') example_request two_agents_app)
     = Some \<lparr>from_agent_id = Some ''A'', to_agent_id = Some ''A'',
              request_type = ''modification'', req_data = example_request,
              request_timestamp = 3\<rparr>"
  by (simp add: requestModification_def canvas_requestModification_def Let_def two_agents_lookup)

text \<open>
  Claim C3, amended. \<open>requestModification(fromId, toId, payload)\<close> checks
  that both ids name registered agents, and nothing else. If one does not,
  it returns \<open>null\<close> and leaves every manager as it was, so nothing is sent.
  If both do, it returns the request it built from its arguments and hands
  that request to the channel as one \<open>modification_request\<close> canvas action,
  which goes out when the channel is open.
\<close>

theorem requestModification_result:
  "fst (requestModification now fromId toId payload s)
     = (if agents (agentManager s) fromId = None \<or> agents (agentManager s) toId = None
        then None
        else Some \<lparr>from_agent_id = fromId, to_agent_id = toId,
                    request_type = ''modification'', req_data = payload,
                    request_timestamp = now\<rparr>)
   \<and> (fst (requestModification now fromId toId payload s) = None
        \<longrightarrow> snd (requestModification now fromId toId payload s) = s)
   \<and> (\<forall>request. fst (requestModification now fromId toId payload s) = Some request
        \<longrightarrow> sent (websocketManager (snd (requestModification now fromId toId payload s)))
              = sent (websocketManager s) @
                (if channel_open (websocketManager s)
                 then [modification_request_message request] else []))"
  by (auto simp: requestModification_def canvas_requestModification_def Let_def
        sent_sendCanvasAction modification_request_message_def split: option.splits)

text \<open>
  On the page with agents "A" and "B": a request from the unknown "C" is
  refused and changes nothing; a request from "A" to "B" is returned and
  sent.
\<close>

theorem requestModification_result_witness:
  "fst (requestModification 3 (Some ''C'') (Some ''B'') example_request two_agents_app) = None
   \<and> snd (requestModification 3 (Some ''C'') (Some ''B'') example_request two_agents_app)
       = two_agents_app
   \<and> fst (requestModification 3 (Some ''A'') (Some ''B'') example_request two_agents_app)
       = Some \<lparr>from_agent_id = Some ''A'', to_agent_id = Some ''B'',
                request_type = ''modification'', req_data = example_request,
                request_timestamp = 3\<rparr>
   \<and> sent (websocketManager
         (snd (requestModification 3 (Some ''A'') (Some ''B'') example_request two_agents_app)))
       = [modification_request_message
            \<lparr>from_agent_id = Some ''A'', to_agent_id = Some ''B'',
             request_type = ''modification'', req_data = example_request,
             request_timestamp = 3\<rparr>]"
proof -
  have quiet: "sent (websocketManager two_agents_app) = []"
    by (simp add: sent_def two_agents_app_def online_app_def initial_app_def ws_constructor_def
          connect_def onopen_def updateConnectionStatus_def new_socket_def)
  have opened: "channel_open (websocketManager two_agents_app)"
    by (simp add: channel_open_def two_agents_app_def online_app_def initial_app_def
          ws_constructor_def connect_def onopen_def updateConnectionStatus_def new_socket_def)
  from requestModification_result[of 3 "Some ''C''" "Some ''B''" example_request two_agents_app]
    requestModification_result[of 3 "Some ''A''" "Some ''B''" example_request two_agents_app]
    quiet opened
  show ?thesis by (simp add: two_agents_lookup)
qed

section \<open>Removing a diagram\<close>

lemma decimal_7: "decimal 7 = ''7''"
  by code_simp

lemma example_diagram_eval:
  "fst example_diagram = ''mermaid-7''"
  "containers (snd example_diagram)
     = [\<lparr>element_id = ''mermaid-7'', mermaid_source = ''graph TD; A-->B'', left_top = (50, 50)\<rparr>]"
  "layers (snd example_diagram) (Some ''A'')
     = Some [\<lparr>obj_type = Some ''mermaid'', obj_id = Some ''mermaid-7'',
               obj_content = ''graph TD; A-->B'', obj_position = Some (50, 50),
               stroke = None, strokeWidth = None, data = None\<rparr>]"
  by (simp_all add: example_diagram_def addMermaidDiagram_def Let_def decimal_7
        push_to_layer_def canvas_constructor_def human_def)

text \<open>
  An insertion raises the owner's count by one, and removing a diagram leaves
  every count as it was.
\<close>

lemma push_to_layer_count:
  "map_option object_count (getLayerInfo (push_to_layer k obj c) k)
     = Some (Suc (length (getLayerObjects c k)))"
  by (simp add: getLayerInfo_def push_to_layer_def layer_info_of_def getLayerObjects_def
        split: option.splits)

lemma removeMermaidDiagram_info: "getLayerInfo (removeMermaidDiagram diagramId c) = getLayerInfo c"
  by (simp add: getLayerInfo_def)

text \<open>
  Claim C7 at the input where the code departs from it: agent "A" inserts one
  diagram and the diagram is removed again. The surface holds no diagram,
  yet \<open>getLayerInfo()\<close> still counts one object for "A".
\<close>

theorem removed_diagram_still_counted:
  "containers (removeMermaidDiagram (fst example_diagram) (snd example_diagram)) = []
   \<and> map_option object_count
         (getLayerInfo (removeMermaidDiagram (fst example_diagram) (snd example_diagram))
            (Some ''A''))
       = Some 1"
  by (simp add: removeMermaidDiagram_def getLayerInfo_def layer_info_of_def example_diagram_eval)

text \<open>
  Claim C8 at the input where the code departs from it: removing the diagram
  that "A" inserted takes its container off the surface, and the entry stored
  for it stays in the layer of "A".
\<close>

theorem removed_diagram_stays_in_layer:
  "containers (snd example_diagram)
     = [\<lparr>element_id = ''mermaid-7'', mermaid_source = ''graph TD; A-->B'', left_top = (50, 50)\<rparr>]
   \<and> containers (removeMermaidDiagram ''mermaid-7'' (snd example_diagram)) = []
   \<and> getLayerObjects (removeMermaidDiagram ''mermaid-7'' (snd example_diagram)) (Some ''A'')
       = [\<lparr>obj_type = Some ''mermaid'', obj_id = Some ''mermaid-7'',
            obj_content = ''graph TD; A-->B'', obj_position = Some (50, 50),
            stroke = None, strokeWidth = None, data = None\<rparr>]"
  by (simp add: removeMermaidDiagram_def getLayerObjects_def example_diagram_eval)

end
